theory Spec2Isabelle
  imports Main
begin

section \<open>Values of Go's empty interface and the errors of the two packages\<close>

text \<open>
  A value of type \<open>interface{}\<close> as the provider framework hands it to the code:
  \<open>VNil\<close> is the nil interface, \<open>VList\<close> a \<open>[]interface{}\<close> and \<open>VMap\<close> a
  \<open>map[string]interface{}\<close>.  Go strings are byte sequences, here \<open>string\<close>.
\<close>

datatype val =
    VNil
  | VString string
  | VInt int
  | VBool bool
  | VList "val list"
  | VMap "string \<Rightarrow> val option"

text \<open>
  Every error value and every run-time panic the modelled functions can produce.
  \<open>SegmentNotSpecifiedError k\<close> is \<open>resourceids.NewSegmentNotSpecifiedError(id, k, input)\<close>,
  \<open>ParsingError input err\<close> is \<open>fmt.Errorf("parsing %q: %+v", input, err)\<close>,
  \<open>ExpectedStringError key\<close> is \<open>fmt.Errorf("expected %q to be a string", key)\<close>,
  \<open>DeletingError name resourceGroup err\<close> is
  \<open>fmt.Errorf("Error deleting activity log alert %q (resource group %q): %+v", ...)\<close>,
  \<open>ApiError msg\<close> is an error returned by a collaborator outside the modelled code.
  \<open>IndexOutOfRange\<close> and \<open>InterfaceConversion\<close> are the panics of \<open>input[0]\<close> and of
  a failed type assertion \<open>x.(T)\<close>.
\<close>

datatype error =
    SegmentNotSpecifiedError string
  | SegmentMismatchError string string
  | UnexpectedSegmentsError
  | ParsingError string error
  | ExpectedStringError string
  | DeletingError string string error
  | ApiError string
  | IndexOutOfRange
  | InterfaceConversion

section \<open>Strings\<close>

text \<open>
  \<open>strings.ToLower\<close> scans the bytes of its argument.  When every byte is below
  \<open>utf8.RuneSelf\<close> (0x80, the top bit clear) it lowers the string byte by byte, a byte
  from \<open>A\<close> to \<open>Z\<close> becoming the byte from \<open>a\<close> to \<open>z\<close> (\<open>toLowerChar\<close>); when some
  byte is not, it returns \<open>strings.Map(unicode.ToLower, s)\<close>, which decodes the runes
  and lowers each by the Unicode tables (U+0130 becomes \<open>i\<close>, U+212A becomes \<open>k\<close>).
  Those tables belong to Go's library: the second branch is the parameter
  \<open>mapUnicode\<close>, and what is proved holds for every such function.
\<close>

definition toLowerChar :: "char \<Rightarrow> char" where
  "toLowerChar c =
     (case map_of (zip ''ABCDEFGHIJKLMNOPQRSTUVWXYZ'' ''abcdefghijklmnopqrstuvwxyz'') c of
        Some l \<Rightarrow> l
      | None \<Rightarrow> c)"

definition isASCII :: "string \<Rightarrow> bool" where
  "isASCII s = list_all (\<lambda>c. \<not> digit7 c) s"

definition ToLower :: "(string \<Rightarrow> string) \<Rightarrow> string \<Rightarrow> string" where
  "ToLower mapUnicode s = (if isASCII s then map toLowerChar s else mapUnicode s)"

text \<open>\<open>strings.Split(s, sep)\<close> for a one-byte separator: never the empty list.\<close>

fun splitOn :: "char \<Rightarrow> string \<Rightarrow> string list" where
  "splitOn sep [] = [[]]"
| "splitOn sep (c # cs) =
     (if c = sep then [] # splitOn sep cs
      else (case splitOn sep cs of
              [] \<Rightarrow> [[c]]
            | w # ws \<Rightarrow> (c # w) # ws))"

section \<open>Resource ID of a Verifier Workspace\<close>

subsection \<open>Segments and the parser of package resourceids\<close>

text \<open>
  Modelled from the spec: the segment type of package \<open>resourceids\<close> (go-azure-helpers),
  which is not among the sources.  One constructor per helper that \<open>Segments\<close> calls;
  the arguments are the segment's key, its literal (static and resource-provider
  segments only) and its example value.
\<close>

datatype Segment =
    StaticSegment string string string
  | SubscriptionIdSegment string string
  | ResourceGroupSegment string string
  | ResourceProviderSegment string string string
  | UserSpecifiedSegment string string

fun segmentName :: "Segment \<Rightarrow> string" where
  "segmentName (StaticSegment name lit ex) = name"
| "segmentName (SubscriptionIdSegment name ex) = name"
| "segmentName (ResourceGroupSegment name ex) = name"
| "segmentName (ResourceProviderSegment name lit ex) = name"
| "segmentName (UserSpecifiedSegment name ex) = name"

record ParseResult =
  Parsed :: "string \<Rightarrow> string option"
  RawInput :: string

text \<open>
  Modelled from the spec: the case-insensitive comparison of the parser, which is not
  among the sources.  Two components are equal without regard to case when they agree
  after the letters \<open>A\<close> to \<open>Z\<close> are folded to \<open>a\<close> to \<open>z\<close>; any other byte is compared
  as it is.
\<close>

definition EqualFold :: "string \<Rightarrow> string \<Rightarrow> bool" where
  "EqualFold s t \<longleftrightarrow> map toLowerChar s = map toLowerChar t"

text \<open>
  Modelled from the spec: \<open>resourceids.Parser.Parse\<close>, which is not among the sources.
  The input is split into path components (the components after the leading
  separator), which are matched positionally against the segment list:
  \<^item> a static segment's component must equal the literal, case-insensitively when the
    flag is set; a resource-provider literal is compared case-insensitively
    whatever the flag; a mismatch is a "segment mismatch" error naming the expected
    literal and the actual component;
  \<^item> a subscription-id, resource-group or user-specified segment accepts any
    non-empty component and captures it under the segment's key; an empty or absent
    component is a "segment not specified" error naming the key;
  \<^item> a wrong number of components is an error; nothing is returned beside an error.
\<close>

fun parseSegment ::
  "bool \<Rightarrow> Segment \<Rightarrow> string \<Rightarrow> (string \<Rightarrow> string option) \<Rightarrow> error + (string \<Rightarrow> string option)"
where
  "parseSegment insensitively (StaticSegment name lit ex) c m =
     (if (if insensitively then EqualFold c lit else c = lit) then Inr m
      else Inl (SegmentMismatchError lit c))"
| "parseSegment insensitively (ResourceProviderSegment name lit ex) c m =
     (if EqualFold c lit then Inr m else Inl (SegmentMismatchError lit c))"
| "parseSegment insensitively (SubscriptionIdSegment name ex) c m =
     (if c = [] then Inl (SegmentNotSpecifiedError name) else Inr (m(name \<mapsto> c)))"
| "parseSegment insensitively (ResourceGroupSegment name ex) c m =
     (if c = [] then Inl (SegmentNotSpecifiedError name) else Inr (m(name \<mapsto> c)))"
| "parseSegment insensitively (UserSpecifiedSegment name ex) c m =
     (if c = [] then Inl (SegmentNotSpecifiedError name) else Inr (m(name \<mapsto> c)))"

fun parseSegments ::
  "bool \<Rightarrow> Segment list \<Rightarrow> string list \<Rightarrow> (string \<Rightarrow> string option)
     \<Rightarrow> error + (string \<Rightarrow> string option)"
where
  "parseSegments insensitively [] [] m = Inr m"
| "parseSegments insensitively [] (c # cs) m = Inl UnexpectedSegmentsError"
| "parseSegments insensitively (s # ss) [] m = Inl (SegmentNotSpecifiedError (segmentName s))"
| "parseSegments insensitively (s # ss) (c # cs) m =
     (case parseSegment insensitively s c m of
        Inl err \<Rightarrow> Inl err
      | Inr m' \<Rightarrow> parseSegments insensitively ss cs m')"

definition pathComponents :: "string \<Rightarrow> string list" where
  "pathComponents input =
     splitOn (CHR ''/'') (case input of [] \<Rightarrow> [] | c # cs \<Rightarrow> if c = CHR ''/'' then cs else c # cs)"

definition Parse :: "Segment list \<Rightarrow> string \<Rightarrow> bool \<Rightarrow> error + ParseResult" where
  "Parse segments input insensitively =
     (case parseSegments insensitively segments (pathComponents input) Map.empty of
        Inl err \<Rightarrow> Inl err
      | Inr m \<Rightarrow> Inr \<lparr>Parsed = m, RawInput = input\<rparr>)"

subsection \<open>VerifierWorkspaceId\<close>

record VerifierWorkspaceId =
  SubscriptionId :: string
  ResourceGroupName :: string
  NetworkManagerName :: string
  VerifierWorkspaceName :: string

definition NewVerifierWorkspaceID ::
  "string \<Rightarrow> string \<Rightarrow> string \<Rightarrow> string \<Rightarrow> VerifierWorkspaceId" where
  "NewVerifierWorkspaceID subscriptionId resourceGroupName networkManagerName verifierWorkspaceName =
     \<lparr>SubscriptionId = subscriptionId,
      ResourceGroupName = resourceGroupName,
      NetworkManagerName = networkManagerName,
      VerifierWorkspaceName = verifierWorkspaceName\<rparr>"

text \<open>The zero value \<open>VerifierWorkspaceId{}\<close>.\<close>

definition zeroVerifierWorkspaceId :: VerifierWorkspaceId where
  "zeroVerifierWorkspaceId =
     \<lparr>SubscriptionId = [], ResourceGroupName = [], NetworkManagerName = [],
      VerifierWorkspaceName = []\<rparr>"

definition Segments :: "VerifierWorkspaceId \<Rightarrow> Segment list" where
  "Segments id' =
     [StaticSegment ''staticSubscriptions'' ''subscriptions'' ''subscriptions'',
      SubscriptionIdSegment ''subscriptionId'' ''12345678-1234-9876-4563-123456789012'',
      StaticSegment ''staticResourceGroups'' ''resourceGroups'' ''resourceGroups'',
      ResourceGroupSegment ''resourceGroupName'' ''example-resource-group'',
      StaticSegment ''staticProviders'' ''providers'' ''providers'',
      ResourceProviderSegment ''staticMicrosoftNetwork'' ''Microsoft.Network'' ''Microsoft.Network'',
      StaticSegment ''staticNetworkManagers'' ''networkManagers'' ''networkManagers'',
      UserSpecifiedSegment ''networkManagerName'' ''networkManagerName'',
      StaticSegment ''staticVerifierWorkspaces'' ''verifierWorkspaces'' ''verifierWorkspaces'',
      UserSpecifiedSegment ''verifierWorkspaceName'' ''verifierWorkspaceName'']"

text \<open>
  \<open>FromParseResult\<close> has a pointer receiver: it assigns the fields of \<open>id\<close> one after
  the other and stops at the first key the mapping lacks.  A comma-ok map read
  assigns the zero value \<open>""\<close> when the key is absent.  The model returns the
  receiver as the call leaves it, together with the error (\<open>None\<close> is \<open>nil\<close>).
\<close>

definition FromParseResult ::
  "VerifierWorkspaceId \<Rightarrow> ParseResult \<Rightarrow> VerifierWorkspaceId \<times> error option" where
  "FromParseResult id' input =
     (case Parsed input ''subscriptionId'' of
        None \<Rightarrow> (id'\<lparr>SubscriptionId := []\<rparr>, Some (SegmentNotSpecifiedError ''subscriptionId''))
      | Some v1 \<Rightarrow>
     (case Parsed input ''resourceGroupName'' of
        None \<Rightarrow> (id'\<lparr>SubscriptionId := v1, ResourceGroupName := []\<rparr>,
                 Some (SegmentNotSpecifiedError ''resourceGroupName''))
      | Some v2 \<Rightarrow>
     (case Parsed input ''networkManagerName'' of
        None \<Rightarrow> (id'\<lparr>SubscriptionId := v1, ResourceGroupName := v2, NetworkManagerName := []\<rparr>,
                 Some (SegmentNotSpecifiedError ''networkManagerName''))
      | Some v3 \<Rightarrow>
     (case Parsed input ''verifierWorkspaceName'' of
        None \<Rightarrow> (id'\<lparr>SubscriptionId := v1, ResourceGroupName := v2, NetworkManagerName := v3,
                    VerifierWorkspaceName := []\<rparr>,
                 Some (SegmentNotSpecifiedError ''verifierWorkspaceName''))
      | Some v4 \<Rightarrow>
          (id'\<lparr>SubscriptionId := v1, ResourceGroupName := v2, NetworkManagerName := v3,
              VerifierWorkspaceName := v4\<rparr>, None)))))"

definition ParseVerifierWorkspaceID :: "string \<Rightarrow> error + VerifierWorkspaceId" where
  "ParseVerifierWorkspaceID input =
     (case Parse (Segments zeroVerifierWorkspaceId) input False of
        Inl err \<Rightarrow> Inl (ParsingError input err)
      | Inr parsed \<Rightarrow>
          (case FromParseResult zeroVerifierWorkspaceId parsed of
             (id', Some err) \<Rightarrow> Inl err
           | (id', None) \<Rightarrow> Inr id'))"

definition ParseVerifierWorkspaceIDInsensitively :: "string \<Rightarrow> error + VerifierWorkspaceId" where
  "ParseVerifierWorkspaceIDInsensitively input =
     (case Parse (Segments zeroVerifierWorkspaceId) input True of
        Inl err \<Rightarrow> Inl (ParsingError input err)
      | Inr parsed \<Rightarrow>
          (case FromParseResult zeroVerifierWorkspaceId parsed of
             (id', Some err) \<Rightarrow> Inl err
           | (id', None) \<Rightarrow> Inr id'))"

text \<open>The result is the pair (warnings, errors); both start as nil slices.\<close>

definition ValidateVerifierWorkspaceID :: "val \<Rightarrow> string \<Rightarrow> string list \<times> error list" where
  "ValidateVerifierWorkspaceID input key =
     (case input of
        VString v \<Rightarrow>
          (case ParseVerifierWorkspaceID v of
             Inl err \<Rightarrow> ([], [err])
           | Inr _ \<Rightarrow> ([], []))
      | _ \<Rightarrow> ([], [ExpectedStringError key]))"

definition ID :: "VerifierWorkspaceId \<Rightarrow> string" where
  "ID id' =
     ''/subscriptions/'' @ SubscriptionId id' @ ''/resourceGroups/'' @ ResourceGroupName id'
       @ ''/providers/Microsoft.Network/networkManagers/'' @ NetworkManagerName id'
       @ ''/verifierWorkspaces/'' @ VerifierWorkspaceName id'"

text \<open>
  The field values that come back from the parser: a path component that is not empty
  and holds no separator.  An identifier is well-shaped when it is the formatter's
  output for four such values.
\<close>

definition segmentValue :: "string \<Rightarrow> bool" where
  "segmentValue s \<longleftrightarrow> s \<noteq> [] \<and> CHR ''/'' \<notin> set s"

definition wellFormed :: "VerifierWorkspaceId \<Rightarrow> bool" where
  "wellFormed x \<longleftrightarrow>
     segmentValue (SubscriptionId x) \<and> segmentValue (ResourceGroupName x) \<and>
     segmentValue (NetworkManagerName x) \<and> segmentValue (VerifierWorkspaceName x)"

text \<open>The keys \<open>FromParseResult\<close> reads, in the order it reads them.\<close>

definition segmentKeys :: "string list" where
  "segmentKeys = [''subscriptionId'', ''resourceGroupName'', ''networkManagerName'', ''verifierWorkspaceName'']"

section \<open>Monitor activity log alert\<close>

subsection \<open>Sequencing of steps that may panic\<close>

fun bindE :: "'e + 'a \<Rightarrow> ('a \<Rightarrow> 'e + 'b) \<Rightarrow> 'e + 'b" where
  "bindE (Inl e) f = Inl e"
| "bindE (Inr x) f = f x"

subsection \<open>Request and response conditions\<close>

text \<open>
  The two SDK structs the code fills and reads; \<open>*string\<close> is \<open>string option\<close>,
  \<open>*[]T\<close> is \<open>T list option\<close>.  Of \<open>insights.AlertRuleAnyOfOrLeafCondition\<close> only
  the fields the code sets are modelled.  The field names carry a suffix, \<open>_rule\<close>
  for the request types and \<open>_log\<close> for the response types.
\<close>

record AlertRuleAnyOfOrLeafCondition =
  Field_rule :: "string option"
  Equals_rule :: "string option"

record AlertRuleAllOfCondition =
  AllOf_rule :: "AlertRuleAnyOfOrLeafCondition list option"

record ActivityLogAlertLeafCondition =
  Field_log :: "string option"
  Equals_log :: "string option"

record ActivityLogAlertAllOfCondition =
  AllOf_log :: "ActivityLogAlertLeafCondition list option"

subsection \<open>expandMonitorActivityLogAlertCriteria\<close>

text \<open>
  One statement of the form
  \<^verbatim>\<open>if x := v[key].(string); x != "" { conditions = append(conditions, {Field: field, Equals: x}) }\<close>
  The type assertion panics when \<open>v[key]\<close> is absent (the nil interface) or holds
  anything but a string.
\<close>

definition appendIfSet ::
  "(string \<Rightarrow> val option) \<Rightarrow> string \<Rightarrow> string \<Rightarrow> AlertRuleAnyOfOrLeafCondition list
     \<Rightarrow> error + AlertRuleAnyOfOrLeafCondition list" where
  "appendIfSet v key field conditions =
     (case v key of
        Some (VString x) \<Rightarrow>
          Inr (if x \<noteq> [] then conditions @ [\<lparr>Field_rule = Some field, Equals_rule = Some x\<rparr>]
               else conditions)
      | _ \<Rightarrow> Inl InterfaceConversion)"

definition expandMonitorActivityLogAlertCriteria :: "val list \<Rightarrow> error + AlertRuleAllOfCondition" where
  "expandMonitorActivityLogAlertCriteria input =
     (case input of
        [] \<Rightarrow> Inl IndexOutOfRange
      | VMap v # _ \<Rightarrow>
          bindE (appendIfSet v ''category'' ''category'' []) (\<lambda>conditions.
          bindE (appendIfSet v ''operation_name'' ''operationName'' conditions) (\<lambda>conditions.
          bindE (appendIfSet v ''caller'' ''caller'' conditions) (\<lambda>conditions.
          bindE (appendIfSet v ''level'' ''level'' conditions) (\<lambda>conditions.
          bindE (appendIfSet v ''resource_provider'' ''resourceProvider'' conditions) (\<lambda>conditions.
          bindE (appendIfSet v ''resource_type'' ''resourceType'' conditions) (\<lambda>conditions.
          bindE (appendIfSet v ''resource_group'' ''resourceGroup'' conditions) (\<lambda>conditions.
          bindE (appendIfSet v ''resource_id'' ''resourceId'' conditions) (\<lambda>conditions.
          bindE (appendIfSet v ''status'' ''status'' conditions) (\<lambda>conditions.
          bindE (appendIfSet v ''sub_status'' ''subStatus'' conditions) (\<lambda>conditions.
          bindE (appendIfSet v ''recommendation_type'' ''properties.recommendationType'' conditions) (\<lambda>conditions.
          bindE (appendIfSet v ''recommendation_category'' ''properties.recommendationCategory'' conditions) (\<lambda>conditions.
          bindE (appendIfSet v ''recommendation_impact'' ''properties.recommendationImpact'' conditions) (\<lambda>conditions.
          Inr \<lparr>AllOf_rule = Some conditions\<rparr>)))))))))))))
      | _ # _ \<Rightarrow> Inl InterfaceConversion)"

text \<open>
  The criteria fields in the order the function reads them, each with the field name
  it sends; and the conditions a criteria map asks for, written as a comprehension
  over that table, to compare the function with.
\<close>

definition criteriaFields :: "(string \<times> string) list" where
  "criteriaFields =
     [(''category'', ''category''),
      (''operation_name'', ''operationName''),
      (''caller'', ''caller''),
      (''level'', ''level''),
      (''resource_provider'', ''resourceProvider''),
      (''resource_type'', ''resourceType''),
      (''resource_group'', ''resourceGroup''),
      (''resource_id'', ''resourceId''),
      (''status'', ''status''),
      (''sub_status'', ''subStatus''),
      (''recommendation_type'', ''properties.recommendationType''),
      (''recommendation_category'', ''properties.recommendationCategory''),
      (''recommendation_impact'', ''properties.recommendationImpact'')]"

definition conditionOf ::
  "(string \<Rightarrow> val option) \<Rightarrow> string \<times> string \<Rightarrow> AlertRuleAnyOfOrLeafCondition list" where
  "conditionOf v kf =
     (case v (fst kf) of
        Some (VString x) \<Rightarrow>
          (if x \<noteq> [] then [\<lparr>Field_rule = Some (snd kf), Equals_rule = Some x\<rparr>] else [])
      | _ \<Rightarrow> [])"

definition nonEmptyCriteria ::
  "(string \<Rightarrow> val option) \<Rightarrow> AlertRuleAnyOfOrLeafCondition list" where
  "nonEmptyCriteria v = concat (map (conditionOf v) criteriaFields)"

definition isString :: "val option \<Rightarrow> bool" where
  "isString x = (case x of Some (VString s) \<Rightarrow> True | _ \<Rightarrow> False)"

definition criteriaShaped :: "(string \<Rightarrow> val option) \<Rightarrow> bool" where
  "criteriaShaped v = list_all (\<lambda>kf. isString (v (fst kf))) criteriaFields"

subsection \<open>flattenMonitorActivityLogAlertCriteria\<close>

text \<open>
  The body of the loop: one condition of the response written into \<open>result\<close>.  The
  first argument is the Unicode branch of \<open>strings.ToLower\<close>, handed on to \<open>ToLower\<close>.
\<close>

definition flattenCondition ::
  "(string \<Rightarrow> string) \<Rightarrow> (string \<Rightarrow> val option) \<Rightarrow> ActivityLogAlertLeafCondition
     \<Rightarrow> (string \<Rightarrow> val option)" where
  "flattenCondition mapUnicode result condition =
     (case Field_log condition of
        None \<Rightarrow> result
      | Some field \<Rightarrow>
     (case Equals_log condition of
        None \<Rightarrow> result
      | Some equals \<Rightarrow>
          (let l = ToLower mapUnicode field in
           if l = ''operationname'' then result(''operation_name'' \<mapsto> VString equals)
           else if l = ''resourceprovider'' then result(''resource_provider'' \<mapsto> VString equals)
           else if l = ''resourcetype'' then result(''resource_type'' \<mapsto> VString equals)
           else if l = ''resourcegroup'' then result(''resource_group'' \<mapsto> VString equals)
           else if l = ''resourceid'' then result(''resource_id'' \<mapsto> VString equals)
           else if l = ''substatus'' then result(''sub_status'' \<mapsto> VString equals)
           else if l = ''properties.recommendationtype''
             then result(''recommendation_type'' \<mapsto> VString equals)
           else if l = ''properties.recommendationcategory''
             then result(''recommendation_category'' \<mapsto> VString equals)
           else if l = ''properties.recommendationimpact''
             then result(''recommendation_impact'' \<mapsto> VString equals)
           else if l = ''caller'' \<or> l = ''category'' \<or> l = ''level'' \<or> l = ''status''
             then result(field \<mapsto> VString equals)
           else result)))"

fun flattenConditions ::
  "(string \<Rightarrow> string) \<Rightarrow> (string \<Rightarrow> val option) \<Rightarrow> ActivityLogAlertLeafCondition list
     \<Rightarrow> (string \<Rightarrow> val option)" where
  "flattenConditions mapUnicode result [] = result"
| "flattenConditions mapUnicode result (condition # rest) =
     flattenConditions mapUnicode (flattenCondition mapUnicode result condition) rest"

definition flattenMonitorActivityLogAlertCriteria ::
  "(string \<Rightarrow> string) \<Rightarrow> ActivityLogAlertAllOfCondition option \<Rightarrow> val list" where
  "flattenMonitorActivityLogAlertCriteria mapUnicode input =
     (case input of
        None \<Rightarrow> [VMap Map.empty]
      | Some c \<Rightarrow>
          (case AllOf_log c of
             None \<Rightarrow> [VMap Map.empty]
           | Some conditions \<Rightarrow> [VMap (flattenConditions mapUnicode Map.empty conditions)]))"

text \<open>
  A Unicode branch for concrete runs.  It lowers the letters \<open>A\<close> to \<open>Z\<close> and the rune
  U+0130 (LATIN CAPITAL LETTER I WITH DOT ABOVE, the bytes C4 B0 in UTF-8), which
  Unicode lowers to \<open>i\<close>, and leaves every other byte as it is.
\<close>

fun lowerDottedI :: "string \<Rightarrow> string" where
  "lowerDottedI [] = []"
| "lowerDottedI [c] = [toLowerChar c]"
| "lowerDottedI (c # d # cs) =
     (if c = CHR 0xC4 \<and> d = CHR 0xB0 then CHR ''i'' # lowerDottedI cs
      else toLowerChar c # lowerDottedI (d # cs))"

subsection \<open>resourceMonitorActivityLogAlertDelete\<close>

text \<open>
  The resource data \<open>d\<close> the framework passes in: its ID (\<open>d.Id()\<close>, set by
  \<open>d.SetId\<close>) and its attributes (set by \<open>d.Set\<close>).  \<open>ResourceID\<close> holds the two
  fields of \<open>azure.ResourceID\<close> the function reads.
\<close>

record ResourceData =
  dataId :: string
  dataAttributes :: "string \<Rightarrow> val option"

record ResourceID =
  ResourceGroup :: string
  Path :: "string \<Rightarrow> string option"

text \<open>
  The collaborators are parameters: \<open>parseAzureResourceID\<close> is
  \<open>azure.ParseAzureResourceID\<close>, \<open>clientDelete\<close> is the API call \<open>client.Delete\<close>
  with its response and its error (\<open>None\<close> is \<open>nil\<close>), \<open>wasNotFound\<close> is
  \<open>response.WasNotFound\<close> on that response.  Reading a key a Go map lacks gives
  \<open>""\<close>.  The function has no statement that writes to \<open>d\<close>; the model returns the
  resource data beside the error to say so.
\<close>

definition resourceMonitorActivityLogAlertDelete ::
  "(string \<Rightarrow> error + ResourceID) \<Rightarrow> (string \<Rightarrow> string \<Rightarrow> 'r \<times> error option) \<Rightarrow> ('r \<Rightarrow> bool)
     \<Rightarrow> ResourceData \<Rightarrow> ResourceData \<times> error option" where
  "resourceMonitorActivityLogAlertDelete parseAzureResourceID clientDelete wasNotFound d =
     (case parseAzureResourceID (dataId d) of
        Inl err \<Rightarrow> (d, Some err)
      | Inr id' \<Rightarrow>
          (let resourceGroup = ResourceGroup id';
               name = (case Path id' ''activityLogAlerts'' of None \<Rightarrow> [] | Some n \<Rightarrow> n)
           in case clientDelete resourceGroup name of
                (resp, Some err) \<Rightarrow>
                  (if \<not> wasNotFound resp then (d, Some (DeletingError name resourceGroup err))
                   else (d, None))
              | (resp, None) \<Rightarrow> (d, None)))"

text \<open>
  Collaborators for a concrete run: an ID that parses to resource group \<open>rg1\<close> and alert
  \<open>alert1\<close>, an API whose Delete fails with status 404 or with status 500, and the
  status test.
\<close>

definition parsesToAlert1 :: "string \<Rightarrow> error + ResourceID" where
  "parsesToAlert1 s = Inr \<lparr>ResourceGroup = ''rg1'', Path = map_of [(''activityLogAlerts'', ''alert1'')]\<rparr>"

definition deleteAnswers404 :: "string \<Rightarrow> string \<Rightarrow> nat \<times> error option" where
  "deleteAnswers404 resourceGroup name = (404, Some (ApiError ''not found''))"

definition deleteAnswers500 :: "string \<Rightarrow> string \<Rightarrow> nat \<times> error option" where
  "deleteAnswers500 resourceGroup name = (500, Some (ApiError ''internal server error''))"

definition status404 :: "nat \<Rightarrow> bool" where
  "status404 code \<longleftrightarrow> code = 404"

section \<open>Properties of the Verifier Workspace ID\<close>

subsection \<open>Splitting and case folding\<close>

lemma splitOn_not_Nil: "splitOn sep s \<noteq> []"
  by (induction s) (auto split: list.splits)

lemma splitOn_no_sep: "sep \<notin> set a \<Longrightarrow> splitOn sep a = [a]"
  by (induction a) auto

lemma splitOn_append_sep:
  "sep \<notin> set a \<Longrightarrow> splitOn sep (a @ sep # rest) = a # splitOn sep rest"
  by (induction a) auto

lemma length_splitOn: "length (splitOn sep s) = Suc (count_list s sep)"
  by (induction s) (auto split: list.splits simp: splitOn_not_Nil)

lemma toLowerChar_slash: "toLowerChar c = CHR ''/'' \<longleftrightarrow> c = CHR ''/''"
  by (auto simp: toLowerChar_def split: if_splits)

lemma EqualFold_no_slash:
  assumes "EqualFold l lit" and "CHR ''/'' \<notin> set lit"
  shows "CHR ''/'' \<notin> set l"
proof
  assume "CHR ''/'' \<in> set l"
  then have "toLowerChar (CHR ''/'') \<in> set (map toLowerChar l)"
    by (metis image_eqI set_map)
  moreover have "toLowerChar (CHR ''/'') = CHR ''/''"
    by (simp add: toLowerChar_def)
  moreover have "map toLowerChar l = map toLowerChar lit"
    using assms(1) by (simp only: EqualFold_def)
  ultimately have "CHR ''/'' \<in> set (map toLowerChar lit)"
    by metis
  then obtain c where "c \<in> set lit" and "toLowerChar c = CHR ''/''"
    by auto
  then show False
    using assms(2) by (simp add: toLowerChar_slash)
qed

subsection \<open>The components of an identifier\<close>

lemma pathComponents_ten:
  assumes "CHR ''/'' \<notin> set c1" "CHR ''/'' \<notin> set c2" "CHR ''/'' \<notin> set c3"
    "CHR ''/'' \<notin> set c4" "CHR ''/'' \<notin> set c5" "CHR ''/'' \<notin> set c6"
    "CHR ''/'' \<notin> set c7" "CHR ''/'' \<notin> set c8" "CHR ''/'' \<notin> set c9"
    "CHR ''/'' \<notin> set c10"
  shows "pathComponents (''/'' @ c1 @ ''/'' @ c2 @ ''/'' @ c3 @ ''/'' @ c4 @ ''/'' @ c5 @ ''/'' @ c6
            @ ''/'' @ c7 @ ''/'' @ c8 @ ''/'' @ c9 @ ''/'' @ c10)
         = [c1, c2, c3, c4, c5, c6, c7, c8, c9, c10]"
  using assms by (simp add: pathComponents_def splitOn_append_sep splitOn_no_sep)

lemma ID_components:
  "ID x = ''/'' @ ''subscriptions'' @ ''/'' @ SubscriptionId x @ ''/'' @ ''resourceGroups''
     @ ''/'' @ ResourceGroupName x @ ''/'' @ ''providers'' @ ''/'' @ ''Microsoft.Network''
     @ ''/'' @ ''networkManagers'' @ ''/'' @ NetworkManagerName x
     @ ''/'' @ ''verifierWorkspaces'' @ ''/'' @ VerifierWorkspaceName x"
  by (simp add: ID_def)

lemma parse_components:
  assumes "s \<noteq> []" "g \<noteq> []" "n \<noteq> []" "w \<noteq> []"
    and "if ins then EqualFold l1 ''subscriptions'' else l1 = ''subscriptions''"
    and "if ins then EqualFold l2 ''resourceGroups'' else l2 = ''resourceGroups''"
    and "if ins then EqualFold l3 ''providers'' else l3 = ''providers''"
    and "EqualFold l4 ''Microsoft.Network''"
    and "if ins then EqualFold l5 ''networkManagers'' else l5 = ''networkManagers''"
    and "if ins then EqualFold l6 ''verifierWorkspaces'' else l6 = ''verifierWorkspaces''"
  shows "parseSegments ins (Segments z) [l1, s, l2, g, l3, l4, l5, n, l6, w] Map.empty
     = Inr [''subscriptionId'' \<mapsto> s, ''resourceGroupName'' \<mapsto> g,
            ''networkManagerName'' \<mapsto> n, ''verifierWorkspaceName'' \<mapsto> w]"
  using assms by (simp add: Segments_def)

lemma FromParseResult_all:
  "FromParseResult x
     \<lparr>Parsed = [''subscriptionId'' \<mapsto> s, ''resourceGroupName'' \<mapsto> g,
                ''networkManagerName'' \<mapsto> n, ''verifierWorkspaceName'' \<mapsto> w],
      RawInput = r\<rparr>
   = (\<lparr>SubscriptionId = s, ResourceGroupName = g, NetworkManagerName = n,
       VerifierWorkspaceName = w\<rparr>, None)"
  by (simp add: FromParseResult_def)

text \<open>
  An identifier whose literals are cased as the mode allows and whose four values are
  segment values parses, in either mode, to exactly those values.
\<close>

lemma parse_identifier:
  assumes v: "segmentValue s" "segmentValue g" "segmentValue n" "segmentValue w"
    and l: "if ins then EqualFold l1 ''subscriptions'' else l1 = ''subscriptions''"
      "if ins then EqualFold l2 ''resourceGroups'' else l2 = ''resourceGroups''"
      "if ins then EqualFold l3 ''providers'' else l3 = ''providers''"
      "EqualFold l4 ''Microsoft.Network''"
      "if ins then EqualFold l5 ''networkManagers'' else l5 = ''networkManagers''"
      "if ins then EqualFold l6 ''verifierWorkspaces'' else l6 = ''verifierWorkspaces''"
  shows "(case Parse (Segments z) (''/'' @ l1 @ ''/'' @ s @ ''/'' @ l2 @ ''/'' @ g @ ''/'' @ l3
              @ ''/'' @ l4 @ ''/'' @ l5 @ ''/'' @ n @ ''/'' @ l6 @ ''/'' @ w) ins of
            Inl err \<Rightarrow> Inl (ParsingError i err)
          | Inr parsed \<Rightarrow>
              (case FromParseResult z' parsed of
                 (id', Some err) \<Rightarrow> Inl err
               | (id', None) \<Rightarrow> Inr id'))
         = Inr \<lparr>SubscriptionId = s, ResourceGroupName = g, NetworkManagerName = n,
                VerifierWorkspaceName = w\<rparr>"
proof -
  have ef: "CHR ''/'' \<notin> set a"
    if "if ins then EqualFold a lit else a = lit" and "CHR ''/'' \<notin> set lit" for a lit
    using that by (auto dest: EqualFold_no_slash split: if_splits)
  have "CHR ''/'' \<notin> set l1" "CHR ''/'' \<notin> set l2" "CHR ''/'' \<notin> set l3"
    "CHR ''/'' \<notin> set l5" "CHR ''/'' \<notin> set l6"
    using l(1,2,3,5,6) by (auto dest!: ef)
  moreover have "CHR ''/'' \<notin> set l4"
    using l(4) by (auto dest!: EqualFold_no_slash)
  ultimately have "pathComponents (''/'' @ l1 @ ''/'' @ s @ ''/'' @ l2 @ ''/'' @ g @ ''/'' @ l3
       @ ''/'' @ l4 @ ''/'' @ l5 @ ''/'' @ n @ ''/'' @ l6 @ ''/'' @ w)
     = [l1, s, l2, g, l3, l4, l5, n, l6, w]"
    using v by (intro pathComponents_ten) (simp_all add: segmentValue_def)
  moreover have "s \<noteq> []" "g \<noteq> []" "n \<noteq> []" "w \<noteq> []"
    using v by (simp_all add: segmentValue_def)
  ultimately show ?thesis
    unfolding Parse_def using parse_components[OF _ _ _ _ l, of s g n w z]
    by (simp add: FromParseResult_all)
qed

lemma parse_ID_wellFormed:
  assumes "wellFormed x"
  shows "ParseVerifierWorkspaceID (ID x) = Inr x"
proof -
  have "ParseVerifierWorkspaceID (ID x)
      = Inr \<lparr>SubscriptionId = SubscriptionId x, ResourceGroupName = ResourceGroupName x,
             NetworkManagerName = NetworkManagerName x,
             VerifierWorkspaceName = VerifierWorkspaceName x\<rparr>"
    unfolding ParseVerifierWorkspaceID_def ID_components
    by (rule parse_identifier) (use assms in \<open>simp_all add: wellFormed_def EqualFold_def\<close>)
  then show ?thesis by simp
qed

text \<open>
  The converse: the parser accepts exactly as many components as there are segments, so
  a formatted identifier that parses at all comes from a well-formed ID.
\<close>

lemma parseSegments_length:
  "parseSegments ins segs comps m = Inr r \<Longrightarrow> length comps = length segs"
  by (induction ins segs comps m rule: parseSegments.induct) (auto split: sum.splits)

lemma length_pathComponents_ID:
  "length (pathComponents (ID x))
   = 10 + count_list (SubscriptionId x) (CHR ''/'') + count_list (ResourceGroupName x) (CHR ''/'')
       + count_list (NetworkManagerName x) (CHR ''/'')
       + count_list (VerifierWorkspaceName x) (CHR ''/'')"
  by (simp add: pathComponents_def ID_def length_splitOn)

lemma parse_ID_only_wellFormed:
  assumes "ParseVerifierWorkspaceID (ID x) = Inr y"
  shows "wellFormed x"
proof -
  obtain m where m: "parseSegments False (Segments zeroVerifierWorkspaceId)
      (pathComponents (ID x)) Map.empty = Inr m"
    using assms by (auto simp: ParseVerifierWorkspaceID_def Parse_def split: sum.splits)
  then have "length (pathComponents (ID x)) = 10"
    by (auto dest: parseSegments_length simp: Segments_def)
  then have none: "CHR ''/'' \<notin> set (SubscriptionId x)" "CHR ''/'' \<notin> set (ResourceGroupName x)"
    "CHR ''/'' \<notin> set (NetworkManagerName x)" "CHR ''/'' \<notin> set (VerifierWorkspaceName x)"
    by (simp_all add: length_pathComponents_ID count_list_0_iff)
  have "pathComponents (ID x)
      = [''subscriptions'', SubscriptionId x, ''resourceGroups'', ResourceGroupName x,
         ''providers'', ''Microsoft.Network'', ''networkManagers'', NetworkManagerName x,
         ''verifierWorkspaces'', VerifierWorkspaceName x]"
    unfolding ID_components by (rule pathComponents_ten) (use none in simp_all)
  with m have "SubscriptionId x \<noteq> [] \<and> ResourceGroupName x \<noteq> []
      \<and> NetworkManagerName x \<noteq> [] \<and> VerifierWorkspaceName x \<noteq> []"
    by (simp add: Segments_def EqualFold_def split: if_splits)
  with none show ?thesis
    by (simp add: wellFormed_def segmentValue_def)
qed

text \<open>
  A static literal that differs from the segment's literal stops the case-sensitive
  parser, whatever the other components are.
\<close>

lemma parse_sensitive_mismatch:
  assumes "CHR ''/'' \<notin> set l1" "CHR ''/'' \<notin> set s" "CHR ''/'' \<notin> set l2" "CHR ''/'' \<notin> set g"
    "CHR ''/'' \<notin> set l3" "CHR ''/'' \<notin> set l4" "CHR ''/'' \<notin> set l5" "CHR ''/'' \<notin> set n"
    "CHR ''/'' \<notin> set l6" "CHR ''/'' \<notin> set w"
    and "l1 \<noteq> ''subscriptions'' \<or> l2 \<noteq> ''resourceGroups'' \<or> l3 \<noteq> ''providers''
         \<or> l5 \<noteq> ''networkManagers'' \<or> l6 \<noteq> ''verifierWorkspaces''"
  shows "\<exists>e. ParseVerifierWorkspaceID (''/'' @ l1 @ ''/'' @ s @ ''/'' @ l2 @ ''/'' @ g @ ''/'' @ l3
              @ ''/'' @ l4 @ ''/'' @ l5 @ ''/'' @ n @ ''/'' @ l6 @ ''/'' @ w) = Inl e"
proof -
  have "\<exists>e. parseSegments False (Segments z) [l1, s, l2, g, l3, l4, l5, n, l6, w] Map.empty = Inl e" for z
    using assms(11) by (auto simp: Segments_def)
  then show ?thesis
    unfolding ParseVerifierWorkspaceID_def Parse_def pathComponents_ten[OF assms(1-10)]
    by (metis (no_types, lifting) sum.simps(5))
qed

subsection \<open>Claims on the identifier\<close>

text \<open>
  C1, as the code has it: for every VerifierWorkspaceId whose four fields are segment
  values (non-empty, without a path separator), formatting it with \<open>ID\<close> and parsing
  the string with \<open>ParseVerifierWorkspaceID\<close> gives back the same four fields.
\<close>

theorem C1_roundtrip:
  "wellFormed x \<Longrightarrow> ParseVerifierWorkspaceID (ID x) = Inr x"
  by (rule parse_ID_wellFormed)

theorem C1_roundtrip_witness:
  "wellFormed \<lparr>SubscriptionId = ''sub1'', ResourceGroupName = ''rg1'',
               NetworkManagerName = ''mgr1'', VerifierWorkspaceName = ''ws1''\<rparr>
   \<and> ParseVerifierWorkspaceID
        (ID \<lparr>SubscriptionId = ''sub1'', ResourceGroupName = ''rg1'',
             NetworkManagerName = ''mgr1'', VerifierWorkspaceName = ''ws1''\<rparr>)
      = Inr \<lparr>SubscriptionId = ''sub1'', ResourceGroupName = ''rg1'',
             NetworkManagerName = ''mgr1'', VerifierWorkspaceName = ''ws1''\<rparr>"
proof -
  have h: "wellFormed \<lparr>SubscriptionId = ''sub1'', ResourceGroupName = ''rg1'',
                       NetworkManagerName = ''mgr1'', VerifierWorkspaceName = ''ws1''\<rparr>"
    by (simp add: wellFormed_def segmentValue_def)
  show ?thesis
    using h C1_roundtrip [OF h] by simp
qed

text \<open>
  The round trip does not hold for every struct value: with an empty SubscriptionId the
  formatted string has an empty component where the subscription is expected, and the
  parser reports that segment as not specified.
\<close>

theorem C1_roundtrip_counterexample:
  "ParseVerifierWorkspaceID
     (ID \<lparr>SubscriptionId = [], ResourceGroupName = ''rg1'',
          NetworkManagerName = ''mgr1'', VerifierWorkspaceName = ''ws1''\<rparr>)
   = Inl (ParsingError
            ''/subscriptions//resourceGroups/rg1/providers/Microsoft.Network/networkManagers/mgr1/verifierWorkspaces/ws1''
            (SegmentNotSpecifiedError ''subscriptionId''))
   \<and> ParseVerifierWorkspaceID
     (ID \<lparr>SubscriptionId = [], ResourceGroupName = ''rg1'',
          NetworkManagerName = ''mgr1'', VerifierWorkspaceName = ''ws1''\<rparr>)
   \<noteq> Inr \<lparr>SubscriptionId = [], ResourceGroupName = ''rg1'',
          NetworkManagerName = ''mgr1'', VerifierWorkspaceName = ''ws1''\<rparr>"
  by (simp add: ParseVerifierWorkspaceID_def ID_def Parse_def pathComponents_def Segments_def
      EqualFold_def toLowerChar_def)

text \<open>
  C2: the example identifier parses to subscription
  \<open>12345678-1234-9876-4563-123456789012\<close>, resource group \<open>example-resource-group\<close>,
  network manager \<open>mgr1\<close> and verifier workspace \<open>ws1\<close>, and \<open>ID\<close> of that struct is the
  identical string.
\<close>

theorem C2_example_identifier:
  "ParseVerifierWorkspaceID
     ''/subscriptions/12345678-1234-9876-4563-123456789012/resourceGroups/example-resource-group/providers/Microsoft.Network/networkManagers/mgr1/verifierWorkspaces/ws1''
   = Inr \<lparr>SubscriptionId = ''12345678-1234-9876-4563-123456789012'',
          ResourceGroupName = ''example-resource-group'',
          NetworkManagerName = ''mgr1'',
          VerifierWorkspaceName = ''ws1''\<rparr>
   \<and> ID \<lparr>SubscriptionId = ''12345678-1234-9876-4563-123456789012'',
          ResourceGroupName = ''example-resource-group'',
          NetworkManagerName = ''mgr1'',
          VerifierWorkspaceName = ''ws1''\<rparr>
   = ''/subscriptions/12345678-1234-9876-4563-123456789012/resourceGroups/example-resource-group/providers/Microsoft.Network/networkManagers/mgr1/verifierWorkspaces/ws1''"
  by (simp add: ParseVerifierWorkspaceID_def ID_def Parse_def pathComponents_def Segments_def
      FromParseResult_def zeroVerifierWorkspaceId_def EqualFold_def toLowerChar_def)

text \<open>
  C3, as the code has it: when the mapping lacks one of the keys subscriptionId,
  resourceGroupName, networkManagerName, verifierWorkspaceName, \<open>FromParseResult\<close>
  fails with the "segment not specified" error naming the first key, in that order,
  that the mapping lacks; it succeeds exactly when all four keys are present, and
  then each field of the receiver holds the mapping's value for its key.  On failure
  the receiver has been written up to the failing field: the fields read before it
  hold the mapping's values, the failing field is the empty string, the later fields
  are as they were.
\<close>

theorem C3_FromParseResult:
  assumes "FromParseResult x p = (x', err)"
  shows "(err = None \<longleftrightarrow> list_all (\<lambda>k. Parsed p k \<noteq> None) segmentKeys)
    \<and> (err = None \<longrightarrow>
          Parsed p ''subscriptionId'' = Some (SubscriptionId x')
        \<and> Parsed p ''resourceGroupName'' = Some (ResourceGroupName x')
        \<and> Parsed p ''networkManagerName'' = Some (NetworkManagerName x')
        \<and> Parsed p ''verifierWorkspaceName'' = Some (VerifierWorkspaceName x'))
    \<and> (err \<noteq> None \<longrightarrow>
          (\<exists>k. err = Some (SegmentNotSpecifiedError k) \<and> k \<in> set segmentKeys \<and> Parsed p k = None
             \<and> list_all (\<lambda>j. Parsed p j \<noteq> None) (takeWhile (\<lambda>j. j \<noteq> k) segmentKeys)))
    \<and> (err = Some (SegmentNotSpecifiedError ''subscriptionId'') \<longrightarrow>
          x' = x\<lparr>SubscriptionId := []\<rparr>)
    \<and> (err = Some (SegmentNotSpecifiedError ''resourceGroupName'') \<longrightarrow>
          (\<exists>s. Parsed p ''subscriptionId'' = Some s
             \<and> x' = x\<lparr>SubscriptionId := s, ResourceGroupName := []\<rparr>))
    \<and> (err = Some (SegmentNotSpecifiedError ''networkManagerName'') \<longrightarrow>
          (\<exists>s g. Parsed p ''subscriptionId'' = Some s \<and> Parsed p ''resourceGroupName'' = Some g
             \<and> x' = x\<lparr>SubscriptionId := s, ResourceGroupName := g, NetworkManagerName := []\<rparr>))
    \<and> (err = Some (SegmentNotSpecifiedError ''verifierWorkspaceName'') \<longrightarrow>
          (\<exists>s g n. Parsed p ''subscriptionId'' = Some s \<and> Parsed p ''resourceGroupName'' = Some g
             \<and> Parsed p ''networkManagerName'' = Some n
             \<and> x' = x\<lparr>SubscriptionId := s, ResourceGroupName := g, NetworkManagerName := n,
                       VerifierWorkspaceName := []\<rparr>))"
proof -
  consider
      (none) "Parsed p ''subscriptionId'' = None"
    | (one) s where "Parsed p ''subscriptionId'' = Some s" "Parsed p ''resourceGroupName'' = None"
    | (two) s g where "Parsed p ''subscriptionId'' = Some s" "Parsed p ''resourceGroupName'' = Some g"
        "Parsed p ''networkManagerName'' = None"
    | (three) s g n where "Parsed p ''subscriptionId'' = Some s"
        "Parsed p ''resourceGroupName'' = Some g" "Parsed p ''networkManagerName'' = Some n"
        "Parsed p ''verifierWorkspaceName'' = None"
    | (four) s g n w where "Parsed p ''subscriptionId'' = Some s"
        "Parsed p ''resourceGroupName'' = Some g" "Parsed p ''networkManagerName'' = Some n"
        "Parsed p ''verifierWorkspaceName'' = Some w"
    by (meson option.exhaust)
  then show ?thesis
  proof cases
    case none
    then have "x' = x\<lparr>SubscriptionId := []\<rparr>"
      and "err = Some (SegmentNotSpecifiedError ''subscriptionId'')"
      using assms by (simp_all add: FromParseResult_def)
    then show ?thesis
      using none by (simp add: segmentKeys_def)
  next
    case one
    then have "x' = x\<lparr>SubscriptionId := s, ResourceGroupName := []\<rparr>"
      and "err = Some (SegmentNotSpecifiedError ''resourceGroupName'')"
      using assms by (simp_all add: FromParseResult_def)
    then show ?thesis
      using one by (simp add: segmentKeys_def)
  next
    case two
    then have "x' = x\<lparr>SubscriptionId := s, ResourceGroupName := g, NetworkManagerName := []\<rparr>"
      and "err = Some (SegmentNotSpecifiedError ''networkManagerName'')"
      using assms by (simp_all add: FromParseResult_def)
    then show ?thesis
      using two by (simp add: segmentKeys_def)
  next
    case three
    then have "x' = x\<lparr>SubscriptionId := s, ResourceGroupName := g, NetworkManagerName := n,
                       VerifierWorkspaceName := []\<rparr>"
      and "err = Some (SegmentNotSpecifiedError ''verifierWorkspaceName'')"
      using assms by (simp_all add: FromParseResult_def)
    then show ?thesis
      using three by (simp add: segmentKeys_def)
  next
    case four
    then have "x' = x\<lparr>SubscriptionId := s, ResourceGroupName := g, NetworkManagerName := n,
                       VerifierWorkspaceName := w\<rparr>"
      and "err = None"
      using assms by (simp_all add: FromParseResult_def)
    then show ?thesis
      using four by (simp add: segmentKeys_def)
  qed
qed

theorem C3_FromParseResult_witness:
  "FromParseResult zeroVerifierWorkspaceId
     \<lparr>Parsed = map_of [(''subscriptionId'', ''sub1''), (''resourceGroupName'', ''rg1''),
                       (''verifierWorkspaceName'', ''ws1'')],
      RawInput = []\<rparr>
   = (\<lparr>SubscriptionId = ''sub1'', ResourceGroupName = ''rg1'', NetworkManagerName = [],
       VerifierWorkspaceName = []\<rparr>,
      Some (SegmentNotSpecifiedError ''networkManagerName''))
   \<and> map_of [(''subscriptionId'', ''sub1''), (''resourceGroupName'', ''rg1''),
              (''verifierWorkspaceName'', ''ws1'')] ''networkManagerName'' = None
   \<and> \<not> list_all (\<lambda>k. map_of [(''subscriptionId'', ''sub1''), (''resourceGroupName'', ''rg1''),
              (''verifierWorkspaceName'', ''ws1'')] k \<noteq> None) segmentKeys
   \<and> FromParseResult zeroVerifierWorkspaceId
     \<lparr>Parsed = map_of [(''subscriptionId'', ''sub1''), (''resourceGroupName'', ''rg1''),
                       (''networkManagerName'', ''mgr1''), (''verifierWorkspaceName'', ''ws1'')],
      RawInput = []\<rparr>
   = (\<lparr>SubscriptionId = ''sub1'', ResourceGroupName = ''rg1'', NetworkManagerName = ''mgr1'',
       VerifierWorkspaceName = ''ws1''\<rparr>, None)
   \<and> list_all (\<lambda>k. map_of [(''subscriptionId'', ''sub1''), (''resourceGroupName'', ''rg1''),
              (''networkManagerName'', ''mgr1''), (''verifierWorkspaceName'', ''ws1'')] k \<noteq> None)
        segmentKeys"
proof -
  have fail: "FromParseResult zeroVerifierWorkspaceId
     \<lparr>Parsed = map_of [(''subscriptionId'', ''sub1''), (''resourceGroupName'', ''rg1''),
                       (''verifierWorkspaceName'', ''ws1'')],
      RawInput = []\<rparr>
   = (\<lparr>SubscriptionId = ''sub1'', ResourceGroupName = ''rg1'', NetworkManagerName = [],
       VerifierWorkspaceName = []\<rparr>,
      Some (SegmentNotSpecifiedError ''networkManagerName''))"
    by (simp add: FromParseResult_def zeroVerifierWorkspaceId_def)
  have ok: "FromParseResult zeroVerifierWorkspaceId
     \<lparr>Parsed = map_of [(''subscriptionId'', ''sub1''), (''resourceGroupName'', ''rg1''),
                       (''networkManagerName'', ''mgr1''), (''verifierWorkspaceName'', ''ws1'')],
      RawInput = []\<rparr>
   = (\<lparr>SubscriptionId = ''sub1'', ResourceGroupName = ''rg1'', NetworkManagerName = ''mgr1'',
       VerifierWorkspaceName = ''ws1''\<rparr>, None)"
    by (simp add: FromParseResult_def zeroVerifierWorkspaceId_def)
  show ?thesis
    using fail ok C3_FromParseResult [OF fail] C3_FromParseResult [OF ok] by simp
qed

text \<open>
  The outcome is not all-or-nothing for the receiver: with only subscriptionId in the
  mapping the call fails and leaves a VerifierWorkspaceId with one field filled.
\<close>

theorem C3_partial_counterexample:
  "FromParseResult zeroVerifierWorkspaceId
     \<lparr>Parsed = map_of [(''subscriptionId'', ''sub1'')], RawInput = ''/subscriptions/sub1''\<rparr>
   = (\<lparr>SubscriptionId = ''sub1'', ResourceGroupName = [], NetworkManagerName = [],
       VerifierWorkspaceName = []\<rparr>,
      Some (SegmentNotSpecifiedError ''resourceGroupName''))"
  by (simp add: FromParseResult_def zeroVerifierWorkspaceId_def)

text \<open>
  C4: take a well-shaped identifier and write its static literals \<open>subscriptions\<close>,
  \<open>resourceGroups\<close>, \<open>providers\<close>, \<open>networkManagers\<close>, \<open>verifierWorkspaces\<close> (and the
  resource-provider literal) in any casing.  \<open>ParseVerifierWorkspaceIDInsensitively\<close>
  accepts the string and returns the four values; \<open>ParseVerifierWorkspaceID\<close> rejects
  it as soon as one of the static literals is not cased as in the segment list.
\<close>

theorem C4_case_sensitivity:
  assumes "segmentValue s" and "segmentValue g" and "segmentValue n" and "segmentValue w"
    and "EqualFold l1 ''subscriptions''" and "EqualFold l2 ''resourceGroups''"
    and "EqualFold l3 ''providers''" and "EqualFold l4 ''Microsoft.Network''"
    and "EqualFold l5 ''networkManagers''" and "EqualFold l6 ''verifierWorkspaces''"
  shows "ParseVerifierWorkspaceIDInsensitively
           (''/'' @ l1 @ ''/'' @ s @ ''/'' @ l2 @ ''/'' @ g @ ''/'' @ l3 @ ''/'' @ l4
              @ ''/'' @ l5 @ ''/'' @ n @ ''/'' @ l6 @ ''/'' @ w)
         = Inr \<lparr>SubscriptionId = s, ResourceGroupName = g, NetworkManagerName = n,
                VerifierWorkspaceName = w\<rparr>
       \<and> (l1 \<noteq> ''subscriptions'' \<or> l2 \<noteq> ''resourceGroups'' \<or> l3 \<noteq> ''providers''
            \<or> l5 \<noteq> ''networkManagers'' \<or> l6 \<noteq> ''verifierWorkspaces''
          \<longrightarrow> (\<exists>e. ParseVerifierWorkspaceID
                     (''/'' @ l1 @ ''/'' @ s @ ''/'' @ l2 @ ''/'' @ g @ ''/'' @ l3 @ ''/'' @ l4
                        @ ''/'' @ l5 @ ''/'' @ n @ ''/'' @ l6 @ ''/'' @ w) = Inl e))"
proof (intro conjI impI)
  show "ParseVerifierWorkspaceIDInsensitively
           (''/'' @ l1 @ ''/'' @ s @ ''/'' @ l2 @ ''/'' @ g @ ''/'' @ l3 @ ''/'' @ l4
              @ ''/'' @ l5 @ ''/'' @ n @ ''/'' @ l6 @ ''/'' @ w)
         = Inr \<lparr>SubscriptionId = s, ResourceGroupName = g, NetworkManagerName = n,
                VerifierWorkspaceName = w\<rparr>"
    unfolding ParseVerifierWorkspaceIDInsensitively_def
    by (rule parse_identifier) (use assms in simp_all)
next
  assume wrong: "l1 \<noteq> ''subscriptions'' \<or> l2 \<noteq> ''resourceGroups'' \<or> l3 \<noteq> ''providers''
            \<or> l5 \<noteq> ''networkManagers'' \<or> l6 \<noteq> ''verifierWorkspaces''"
  have "CHR ''/'' \<notin> set l1" "CHR ''/'' \<notin> set l2" "CHR ''/'' \<notin> set l3" "CHR ''/'' \<notin> set l4"
    "CHR ''/'' \<notin> set l5" "CHR ''/'' \<notin> set l6"
    using assms(5-10) by (auto dest!: EqualFold_no_slash)
  moreover have "CHR ''/'' \<notin> set s" "CHR ''/'' \<notin> set g" "CHR ''/'' \<notin> set n" "CHR ''/'' \<notin> set w"
    using assms(1-4) by (simp_all add: segmentValue_def)
  ultimately show "\<exists>e. ParseVerifierWorkspaceID
                     (''/'' @ l1 @ ''/'' @ s @ ''/'' @ l2 @ ''/'' @ g @ ''/'' @ l3 @ ''/'' @ l4
                        @ ''/'' @ l5 @ ''/'' @ n @ ''/'' @ l6 @ ''/'' @ w) = Inl e"
    using wrong by (intro parse_sensitive_mismatch)
qed

theorem C4_case_sensitivity_witness:
  "ParseVerifierWorkspaceIDInsensitively
     ''/SUBSCRIPTIONS/sub1/resourcegroups/rg1/Providers/MICROSOFT.network/NetworkManagers/mgr1/verifierworkspaces/ws1''
   = Inr \<lparr>SubscriptionId = ''sub1'', ResourceGroupName = ''rg1'', NetworkManagerName = ''mgr1'',
          VerifierWorkspaceName = ''ws1''\<rparr>
   \<and> (\<exists>e. ParseVerifierWorkspaceID
     ''/SUBSCRIPTIONS/sub1/resourcegroups/rg1/Providers/MICROSOFT.network/NetworkManagers/mgr1/verifierworkspaces/ws1''
       = Inl e)"
proof -
  have v: "segmentValue ''sub1''" "segmentValue ''rg1''" "segmentValue ''mgr1''" "segmentValue ''ws1''"
    by (simp_all add: segmentValue_def)
  have l: "EqualFold ''SUBSCRIPTIONS'' ''subscriptions''" "EqualFold ''resourcegroups'' ''resourceGroups''"
    "EqualFold ''Providers'' ''providers''" "EqualFold ''MICROSOFT.network'' ''Microsoft.Network''"
    "EqualFold ''NetworkManagers'' ''networkManagers''"
    "EqualFold ''verifierworkspaces'' ''verifierWorkspaces''"
    by (simp_all add: EqualFold_def toLowerChar_def)
  show ?thesis
    using C4_case_sensitivity [OF v l] by simp
qed

text \<open>
  The resource-provider literal is no static segment: it is compared without regard to
  case in both modes, so its casing alone never makes the case-sensitive parser fail.
\<close>

lemma resource_provider_literal_any_case:
  assumes "segmentValue s" and "segmentValue g" and "segmentValue n" and "segmentValue w"
    and "EqualFold l4 ''Microsoft.Network''"
  shows "ParseVerifierWorkspaceID
           (''/subscriptions/'' @ s @ ''/resourceGroups/'' @ g @ ''/providers/'' @ l4
              @ ''/networkManagers/'' @ n @ ''/verifierWorkspaces/'' @ w)
         = Inr \<lparr>SubscriptionId = s, ResourceGroupName = g, NetworkManagerName = n,
                VerifierWorkspaceName = w\<rparr>"
proof -
  have "ParseVerifierWorkspaceID
           (''/'' @ ''subscriptions'' @ ''/'' @ s @ ''/'' @ ''resourceGroups'' @ ''/'' @ g
              @ ''/'' @ ''providers'' @ ''/'' @ l4 @ ''/'' @ ''networkManagers'' @ ''/'' @ n
              @ ''/'' @ ''verifierWorkspaces'' @ ''/'' @ w)
         = Inr \<lparr>SubscriptionId = s, ResourceGroupName = g, NetworkManagerName = n,
                VerifierWorkspaceName = w\<rparr>"
    unfolding ParseVerifierWorkspaceID_def
    by (rule parse_identifier) (use assms in simp_all)
  then show ?thesis by simp
qed

text \<open>
  C5: \<open>ValidateVerifierWorkspaceID\<close> never returns a warning; it returns an error when
  the input is not a string and when the string does not parse (the empty string among
  them), and no error for the formatter's output on a well-formed ID.
\<close>

theorem C5_validate:
  "fst (ValidateVerifierWorkspaceID input key) = []
   \<and> ((\<forall>v. input \<noteq> VString v) \<longrightarrow> snd (ValidateVerifierWorkspaceID input key) = [ExpectedStringError key])
   \<and> (ParseVerifierWorkspaceID v = Inl e \<longrightarrow> snd (ValidateVerifierWorkspaceID (VString v) key) = [e])
   \<and> snd (ValidateVerifierWorkspaceID (VString []) key) \<noteq> []
   \<and> (wellFormed x \<longrightarrow> ValidateVerifierWorkspaceID (VString (ID x)) key = ([], []))"
proof (intro conjI impI)
  show "fst (ValidateVerifierWorkspaceID input key) = []"
    by (simp add: ValidateVerifierWorkspaceID_def split: val.splits sum.splits)
  show "snd (ValidateVerifierWorkspaceID input key) = [ExpectedStringError key]"
    if "\<forall>v. input \<noteq> VString v"
    using that by (cases input) (simp_all add: ValidateVerifierWorkspaceID_def)
  show "snd (ValidateVerifierWorkspaceID (VString v) key) = [e]"
    if "ParseVerifierWorkspaceID v = Inl e"
    using that by (simp add: ValidateVerifierWorkspaceID_def)
  have "\<exists>e. ParseVerifierWorkspaceID [] = Inl e"
    by (simp add: ParseVerifierWorkspaceID_def Parse_def pathComponents_def Segments_def)
  then show "snd (ValidateVerifierWorkspaceID (VString []) key) \<noteq> []"
    by (auto simp: ValidateVerifierWorkspaceID_def)
  show "ValidateVerifierWorkspaceID (VString (ID x)) key = ([], [])" if "wellFormed x"
    using parse_ID_wellFormed [OF that] by (simp add: ValidateVerifierWorkspaceID_def)
qed

theorem C5_validate_witness:
  "(\<forall>v. VInt 7 \<noteq> VString v)
   \<and> ValidateVerifierWorkspaceID (VInt 7) ''workspace_id'' = ([], [ExpectedStringError ''workspace_id''])
   \<and> ParseVerifierWorkspaceID ''/subscriptions''
       = Inl (ParsingError ''/subscriptions'' (SegmentNotSpecifiedError ''subscriptionId''))
   \<and> snd (ValidateVerifierWorkspaceID (VString ''/subscriptions'') ''workspace_id'')
       = [ParsingError ''/subscriptions'' (SegmentNotSpecifiedError ''subscriptionId'')]
   \<and> wellFormed \<lparr>SubscriptionId = ''sub1'', ResourceGroupName = ''rg1'',
                  NetworkManagerName = ''mgr1'', VerifierWorkspaceName = ''ws1''\<rparr>
   \<and> ValidateVerifierWorkspaceID
        (VString ''/subscriptions/sub1/resourceGroups/rg1/providers/Microsoft.Network/networkManagers/mgr1/verifierWorkspaces/ws1'')
        ''workspace_id'' = ([], [])"
proof -
  have p: "ParseVerifierWorkspaceID ''/subscriptions''
       = Inl (ParsingError ''/subscriptions'' (SegmentNotSpecifiedError ''subscriptionId''))"
    by (simp add: ParseVerifierWorkspaceID_def Parse_def pathComponents_def Segments_def
        EqualFold_def toLowerChar_def)
  have w: "wellFormed \<lparr>SubscriptionId = ''sub1'', ResourceGroupName = ''rg1'',
                  NetworkManagerName = ''mgr1'', VerifierWorkspaceName = ''ws1''\<rparr>"
    by (simp add: wellFormed_def segmentValue_def)
  show ?thesis
    using p w
      C5_validate [of "VInt 7" "''workspace_id''" "''/subscriptions''"
        "ParsingError ''/subscriptions'' (SegmentNotSpecifiedError ''subscriptionId'')"
        "\<lparr>SubscriptionId = ''sub1'', ResourceGroupName = ''rg1'',
          NetworkManagerName = ''mgr1'', VerifierWorkspaceName = ''ws1''\<rparr>"]
    by (simp add: prod_eq_iff ID_def)
qed

section \<open>Properties of the activity log alert criteria\<close>

subsection \<open>Steps of expand\<close>

lemma bindE_Inr_iff: "bindE m f = Inr y \<longleftrightarrow> (\<exists>x. m = Inr x \<and> f x = Inr y)"
  by (cases m) auto

lemma isString_iff: "isString x \<longleftrightarrow> (\<exists>s. x = Some (VString s))"
  by (auto simp: isString_def split: option.splits val.splits)

lemma appendIfSet_Inr_iff:
  "appendIfSet v key field cs = Inr r \<longleftrightarrow>
     (\<exists>x. v key = Some (VString x) \<and> r = cs @ conditionOf v (key, field))"
  by (auto simp: appendIfSet_def conditionOf_def split: option.splits val.splits)

lemma appendIfSet_string:
  "isString (v key) \<Longrightarrow> appendIfSet v key field cs = Inr (cs @ conditionOf v (key, field))"
  by (auto simp: appendIfSet_def conditionOf_def isString_def split: option.splits val.splits)

lemma expand_shaped:
  assumes "criteriaShaped v"
  shows "expandMonitorActivityLogAlertCriteria (VMap v # rest)
         = Inr \<lparr>AllOf_rule = Some (nonEmptyCriteria v)\<rparr>"
  using assms
  by (simp add: expandMonitorActivityLogAlertCriteria_def criteriaShaped_def criteriaFields_def
      nonEmptyCriteria_def appendIfSet_string)

lemma expand_Inr_shaped:
  assumes "expandMonitorActivityLogAlertCriteria input = Inr r"
  shows "\<exists>v rest. input = VMap v # rest \<and> criteriaShaped v"
proof (cases input)
  case Nil
  then show ?thesis
    using assms by (simp add: expandMonitorActivityLogAlertCriteria_def)
next
  case (Cons x rest)
  show ?thesis
  proof (cases x)
    case (VMap v)
    have "criteriaShaped v"
      using assms unfolding Cons VMap expandMonitorActivityLogAlertCriteria_def
      by (simp add: bindE_Inr_iff appendIfSet_Inr_iff criteriaShaped_def criteriaFields_def
          isString_iff)
    then show ?thesis
      using Cons VMap by simp
  qed (use assms Cons in \<open>simp_all add: expandMonitorActivityLogAlertCriteria_def\<close>)
qed

text \<open>What the comprehension holds: one condition for each field with a non-empty string.\<close>

lemma set_nonEmptyCriteria:
  "c \<in> set (nonEmptyCriteria v) \<longleftrightarrow>
     (\<exists>k f x. (k, f) \<in> set criteriaFields \<and> v k = Some (VString x) \<and> x \<noteq> []
        \<and> c = \<lparr>Field_rule = Some f, Equals_rule = Some x\<rparr>)"
  unfolding nonEmptyCriteria_def
  by (auto simp: conditionOf_def split: option.splits val.splits if_splits) force

lemma length_concat_conditionOf:
  "length (concat (map (conditionOf v) fs))
   = length (filter (\<lambda>kf. \<exists>x. v (fst kf) = Some (VString x) \<and> x \<noteq> []) fs)"
  by (induction fs) (auto simp: conditionOf_def split: option.splits val.splits)

subsection \<open>Steps of flatten\<close>

lemma flattenConditions_snoc:
  "flattenConditions u result (cs @ [c]) = flattenCondition u (flattenConditions u result cs) c"
  by (induction cs arbitrary: result) simp_all

lemma flatten_snoc:
  "flattenMonitorActivityLogAlertCriteria u (Some \<lparr>AllOf_log = Some (cs @ [c])\<rparr>)
   = [VMap (flattenCondition u (flattenConditions u Map.empty cs) c)]"
  by (simp add: flattenMonitorActivityLogAlertCriteria_def flattenConditions_snoc)

text \<open>
  On a string of ASCII bytes \<open>ToLower\<close> does not reach its Unicode branch; the field
  names of the criteria table are such strings.
\<close>

lemma ToLower_ascii: "isASCII s \<Longrightarrow> ToLower u s = map toLowerChar s"
  by (simp add: ToLower_def)

lemma isASCII_criteriaFields: "list_all (\<lambda>kf. isASCII (snd kf)) criteriaFields"
  by (simp add: criteriaFields_def isASCII_def)

lemma ToLower_api:
  "ToLower u ''operationName'' = ''operationname''"
  "ToLower u ''resourceProvider'' = ''resourceprovider''"
  "ToLower u ''resourceType'' = ''resourcetype''"
  "ToLower u ''resourceGroup'' = ''resourcegroup''"
  "ToLower u ''resourceId'' = ''resourceid''"
  "ToLower u ''subStatus'' = ''substatus''"
  "ToLower u ''properties.recommendationType'' = ''properties.recommendationtype''"
  "ToLower u ''properties.recommendationCategory'' = ''properties.recommendationcategory''"
  "ToLower u ''properties.recommendationImpact'' = ''properties.recommendationimpact''"
  "ToLower u ''caller'' = ''caller''"
  "ToLower u ''category'' = ''category''"
  "ToLower u ''level'' = ''level''"
  "ToLower u ''status'' = ''status''"
  by code_simp+

text \<open>
  Folding a byte keeps its top bit, so a string that agrees with an ASCII string up
  to the case of the letters is itself ASCII, and \<open>ToLower\<close> agrees on the two.
\<close>

lemma digit7_toLowerChar: "digit7 (toLowerChar c) = digit7 c"
  by (auto simp: toLowerChar_def split: if_splits)

lemma isASCII_map_toLowerChar: "isASCII (map toLowerChar s) = isASCII s"
  by (simp add: isASCII_def list_all_iff digit7_toLowerChar)

lemma EqualFold_ToLower:
  assumes "EqualFold f api" and "isASCII api"
  shows "ToLower u f = ToLower u api"
proof -
  have "isASCII (map toLowerChar f)"
    using assms by (simp add: EqualFold_def isASCII_map_toLowerChar)
  then have "isASCII f"
    by (simp add: isASCII_map_toLowerChar)
  then show ?thesis
    using assms by (simp add: ToLower_ascii EqualFold_def)
qed

lemma flattenCondition_as_spelled:
  assumes "ToLower u f = ''caller'' \<or> ToLower u f = ''category'' \<or> ToLower u f = ''level''
           \<or> ToLower u f = ''status''"
  shows "flattenCondition u m \<lparr>Field_log = Some f, Equals_log = Some e\<rparr> = m(f \<mapsto> VString e)"
  using assms by (elim disjE) (simp_all add: flattenCondition_def)

lemma flattenCondition_snake_case:
  assumes "(k, ToLower u f) \<in> set
       [(''operation_name'', ''operationname''), (''resource_provider'', ''resourceprovider''),
        (''resource_type'', ''resourcetype''), (''resource_group'', ''resourcegroup''),
        (''resource_id'', ''resourceid''), (''sub_status'', ''substatus''),
        (''recommendation_type'', ''properties.recommendationtype''),
        (''recommendation_category'', ''properties.recommendationcategory''),
        (''recommendation_impact'', ''properties.recommendationimpact'')]"
  shows "flattenCondition u m \<lparr>Field_log = Some f, Equals_log = Some e\<rparr> = m(k \<mapsto> VString e)"
  using assms unfolding list.set insert_iff prod.inject empty_iff
  by (elim disjE conjE) (simp_all add: flattenCondition_def)

lemma flattenCondition_unknown:
  assumes "ToLower u f \<notin> set
       [''category'', ''operationname'', ''caller'', ''level'', ''resourceprovider'',
        ''resourcetype'', ''resourcegroup'', ''resourceid'', ''status'', ''substatus'',
        ''properties.recommendationtype'', ''properties.recommendationcategory'',
        ''properties.recommendationimpact'']"
  shows "flattenCondition u m \<lparr>Field_log = Some f, Equals_log = Some e\<rparr> = m"
  using assms unfolding list.set insert_iff empty_iff de_Morgan_disj
  by (simp add: flattenCondition_def)

lemma flattenCondition_known:
  assumes "ToLower u f \<in> set
       [''category'', ''operationname'', ''caller'', ''level'', ''resourceprovider'',
        ''resourcetype'', ''resourcegroup'', ''resourceid'', ''status'', ''substatus'',
        ''properties.recommendationtype'', ''properties.recommendationcategory'',
        ''properties.recommendationimpact'']"
  shows "flattenCondition u Map.empty \<lparr>Field_log = Some f, Equals_log = Some e\<rparr> \<noteq> Map.empty"
  using assms unfolding list.set insert_iff empty_iff
  by (elim disjE) (simp_all add: flattenCondition_def)

text \<open>The field names of the criteria table, as \<open>ToLower\<close> compares them.\<close>

lemma ToLower_criteriaFields:
  "list_ex (\<lambda>kf. ToLower u f = ToLower u (snd kf)) criteriaFields \<longleftrightarrow>
     ToLower u f \<in> set
       [''category'', ''operationname'', ''caller'', ''level'', ''resourceprovider'',
        ''resourcetype'', ''resourcegroup'', ''resourceid'', ''status'', ''substatus'',
        ''properties.recommendationtype'', ''properties.recommendationcategory'',
        ''properties.recommendationimpact'']"
  by (simp add: criteriaFields_def ToLower_api)

lemma ToLower_snake_case:
  assumes "(k, api) \<in> set criteriaFields" and "ToLower u f = ToLower u api"
    and "api \<noteq> ''caller''" and "api \<noteq> ''category''" and "api \<noteq> ''level''" and "api \<noteq> ''status''"
  shows "(k, ToLower u f) \<in> set
       [(''operation_name'', ''operationname''), (''resource_provider'', ''resourceprovider''),
        (''resource_type'', ''resourcetype''), (''resource_group'', ''resourcegroup''),
        (''resource_id'', ''resourceid''), (''sub_status'', ''substatus''),
        (''recommendation_type'', ''properties.recommendationtype''),
        (''recommendation_category'', ''properties.recommendationcategory''),
        (''recommendation_impact'', ''properties.recommendationimpact'')]"
  using assms unfolding criteriaFields_def list.set insert_iff prod.inject empty_iff
  by (elim disjE conjE) (simp_all add: ToLower_api)

subsection \<open>Claims on expand\<close>

text \<open>
  C6, as the code has it: for every criteria map that holds a string under each of the
  thirteen criteria keys, \<open>expandMonitorActivityLogAlertCriteria\<close> returns, in the order
  of the code, exactly one condition for each field whose string is not empty (with the
  field name sent to the API and the string as \<open>Equals\<close>) and none for a field equal to
  the empty string.
\<close>

theorem C6_expand:
  assumes "criteriaShaped v"
  shows "expandMonitorActivityLogAlertCriteria (VMap v # rest)
           = Inr \<lparr>AllOf_rule = Some (nonEmptyCriteria v)\<rparr>
    \<and> length (nonEmptyCriteria v)
        = length (filter (\<lambda>kf. \<exists>x. v (fst kf) = Some (VString x) \<and> x \<noteq> []) criteriaFields)
    \<and> (\<forall>c. c \<in> set (nonEmptyCriteria v) \<longleftrightarrow>
          (\<exists>k f x. (k, f) \<in> set criteriaFields \<and> v k = Some (VString x) \<and> x \<noteq> []
             \<and> c = \<lparr>Field_rule = Some f, Equals_rule = Some x\<rparr>))"
  using assms
  by (simp add: expand_shaped set_nonEmptyCriteria)
     (simp add: nonEmptyCriteria_def length_concat_conditionOf)

text \<open>
  The scenario with every key present: category \<open>Administrative\<close>, all other fields
  the empty string, gives the one condition for category.
\<close>

theorem C6_expand_witness:
  "criteriaShaped (map_of
      [(''category'', VString ''Administrative''), (''operation_name'', VString []),
       (''caller'', VString []), (''level'', VString []), (''resource_provider'', VString []),
       (''resource_type'', VString []), (''resource_group'', VString []),
       (''resource_id'', VString []), (''status'', VString []), (''sub_status'', VString []),
       (''recommendation_type'', VString []), (''recommendation_category'', VString []),
       (''recommendation_impact'', VString [])])
   \<and> expandMonitorActivityLogAlertCriteria
     [VMap (map_of
      [(''category'', VString ''Administrative''), (''operation_name'', VString []),
       (''caller'', VString []), (''level'', VString []), (''resource_provider'', VString []),
       (''resource_type'', VString []), (''resource_group'', VString []),
       (''resource_id'', VString []), (''status'', VString []), (''sub_status'', VString []),
       (''recommendation_type'', VString []), (''recommendation_category'', VString []),
       (''recommendation_impact'', VString [])])]
   = Inr \<lparr>AllOf_rule = Some [\<lparr>Field_rule = Some ''category'', Equals_rule = Some ''Administrative''\<rparr>]\<rparr>"
proof -
  let ?v = "map_of
      [(''category'', VString ''Administrative''), (''operation_name'', VString []),
       (''caller'', VString []), (''level'', VString []), (''resource_provider'', VString []),
       (''resource_type'', VString []), (''resource_group'', VString []),
       (''resource_id'', VString []), (''status'', VString []), (''sub_status'', VString []),
       (''recommendation_type'', VString []), (''recommendation_category'', VString []),
       (''recommendation_impact'', VString [])]"
  have h: "criteriaShaped ?v"
    by (simp add: criteriaShaped_def criteriaFields_def isString_def)
  have n: "nonEmptyCriteria ?v
     = [\<lparr>Field_rule = Some ''category'', Equals_rule = Some ''Administrative''\<rparr>]"
    by (simp add: nonEmptyCriteria_def criteriaFields_def conditionOf_def)
  show ?thesis
    using h n C6_expand [OF h, of "[]"] by simp
qed

text \<open>
  The claim does not hold for every map: the map with the two keys category and
  operation_name has no value under caller, and the type assertion on it panics.
\<close>

theorem C6_expand_counterexample:
  "expandMonitorActivityLogAlertCriteria
     [VMap (map_of [(''category'', VString ''Administrative''), (''operation_name'', VString [])])]
   = Inl InterfaceConversion"
  by (simp add: expandMonitorActivityLogAlertCriteria_def appendIfSet_def)

text \<open>
  C10: \<open>expandMonitorActivityLogAlertCriteria\<close> returns a result exactly when the input
  list is not empty and its first element is a map with a string under every criteria
  key; on the empty list the index \<open>input[0]\<close> is out of range.
\<close>

theorem C10_expand_total:
  "((\<exists>r. expandMonitorActivityLogAlertCriteria input = Inr r)
      \<longleftrightarrow> (\<exists>v rest. input = VMap v # rest \<and> criteriaShaped v))
   \<and> expandMonitorActivityLogAlertCriteria [] = Inl IndexOutOfRange"
proof (intro conjI iffI)
  assume "\<exists>r. expandMonitorActivityLogAlertCriteria input = Inr r"
  then show "\<exists>v rest. input = VMap v # rest \<and> criteriaShaped v"
    by (auto dest: expand_Inr_shaped)
next
  assume "\<exists>v rest. input = VMap v # rest \<and> criteriaShaped v"
  then show "\<exists>r. expandMonitorActivityLogAlertCriteria input = Inr r"
    by (auto simp: expand_shaped)
next
  show "expandMonitorActivityLogAlertCriteria [] = Inl IndexOutOfRange"
    by (simp add: expandMonitorActivityLogAlertCriteria_def)
qed

theorem C10_expand_total_witness:
  "(\<exists>r. expandMonitorActivityLogAlertCriteria
      [VMap (map_of
        [(''category'', VString ''Policy''), (''operation_name'', VString ''write''),
         (''caller'', VString []), (''level'', VString ''Error''),
         (''resource_provider'', VString []), (''resource_type'', VString []),
         (''resource_group'', VString []), (''resource_id'', VString []),
         (''status'', VString []), (''sub_status'', VString []),
         (''recommendation_type'', VString []), (''recommendation_category'', VString []),
         (''recommendation_impact'', VString [])])] = Inr r)
   \<and> \<not> (\<exists>r. expandMonitorActivityLogAlertCriteria
      [VMap (map_of [(''category'', VString ''Policy''), (''level'', VInt 3)])] = Inr r)
   \<and> \<not> (\<exists>r. expandMonitorActivityLogAlertCriteria [VString ''Policy''] = Inr r)"
proof -
  let ?v = "map_of
        [(''category'', VString ''Policy''), (''operation_name'', VString ''write''),
         (''caller'', VString []), (''level'', VString ''Error''),
         (''resource_provider'', VString []), (''resource_type'', VString []),
         (''resource_group'', VString []), (''resource_id'', VString []),
         (''status'', VString []), (''sub_status'', VString []),
         (''recommendation_type'', VString []), (''recommendation_category'', VString []),
         (''recommendation_impact'', VString [])]"
  let ?u = "map_of [(''category'', VString ''Policy''), (''level'', VInt 3)]"
  have "criteriaShaped ?v"
    by (simp add: criteriaShaped_def criteriaFields_def isString_def)
  moreover have "\<not> criteriaShaped ?u"
    by (simp add: criteriaShaped_def criteriaFields_def isString_def)
  ultimately show ?thesis
    using C10_expand_total [of "[VMap ?v]"] C10_expand_total [of "[VMap ?u]"]
      C10_expand_total [of "[VString ''Policy'']"]
    by simp
qed

subsection \<open>Claims on flatten\<close>

text \<open>
  C7: for the response whose only condition has Field \<open>category\<close> and Equals
  \<open>Administrative\<close>, \<open>flattenMonitorActivityLogAlertCriteria\<close> returns the one map
  \<open>{category: "Administrative"}\<close>, with no other key.  A field name is recognised
  without regard to case, as \<open>strings.ToLower\<close> compares it: a single condition leaves
  the map empty exactly when the lowered Field is the lowered form of none of the field
  names of the criteria table.  This holds whatever the Unicode branch of
  \<open>strings.ToLower\<close> returns.
\<close>

theorem C7_flatten_category:
  "flattenMonitorActivityLogAlertCriteria u
     (Some \<lparr>AllOf_log = Some [\<lparr>Field_log = Some ''category'', Equals_log = Some ''Administrative''\<rparr>]\<rparr>)
   = [VMap [''category'' \<mapsto> VString ''Administrative'']]
   \<and> list_all (\<lambda>kf. fst kf = ''category'' \<or> [''category'' \<mapsto> VString ''Administrative''] (fst kf) = None)
        criteriaFields
   \<and> (flattenMonitorActivityLogAlertCriteria u
        (Some \<lparr>AllOf_log = Some [\<lparr>Field_log = Some f, Equals_log = Some e\<rparr>]\<rparr>) = [VMap Map.empty]
      \<longleftrightarrow> \<not> list_ex (\<lambda>kf. ToLower u f = ToLower u (snd kf)) criteriaFields)"
proof (intro conjI)
  show "flattenMonitorActivityLogAlertCriteria u
     (Some \<lparr>AllOf_log = Some [\<lparr>Field_log = Some ''category'', Equals_log = Some ''Administrative''\<rparr>]\<rparr>)
   = [VMap [''category'' \<mapsto> VString ''Administrative'']]"
    by (simp add: flattenMonitorActivityLogAlertCriteria_def flattenCondition_def ToLower_api)
  show "list_all (\<lambda>kf. fst kf = ''category'' \<or> [''category'' \<mapsto> VString ''Administrative''] (fst kf) = None)
        criteriaFields"
    by (simp add: criteriaFields_def)
  show "flattenMonitorActivityLogAlertCriteria u
        (Some \<lparr>AllOf_log = Some [\<lparr>Field_log = Some f, Equals_log = Some e\<rparr>]\<rparr>) = [VMap Map.empty]
      \<longleftrightarrow> \<not> list_ex (\<lambda>kf. ToLower u f = ToLower u (snd kf)) criteriaFields"
    unfolding ToLower_criteriaFields
    using flattenCondition_known [of u f e] flattenCondition_unknown [of u f Map.empty e]
    by (auto simp: flattenMonitorActivityLogAlertCriteria_def)
qed

text \<open>
  Three runs: \<open>OperationName\<close> is recognised, the configuration key \<open>operation_name\<close>
  is not a field name of the response, and \<open>resource\<close>, U+0130, \<open>d\<close> is recognised as
  \<open>resourceId\<close>, since Unicode lowers U+0130 to \<open>i\<close>.
\<close>

theorem C7_flatten_category_witness:
  "flattenMonitorActivityLogAlertCriteria lowerDottedI
     (Some \<lparr>AllOf_log = Some [\<lparr>Field_log = Some ''OperationName'', Equals_log = Some ''write''\<rparr>]\<rparr>)
     \<noteq> [VMap Map.empty]
   \<and> list_ex (\<lambda>kf. ToLower lowerDottedI ''OperationName'' = ToLower lowerDottedI (snd kf))
        criteriaFields
   \<and> flattenMonitorActivityLogAlertCriteria lowerDottedI
     (Some \<lparr>AllOf_log = Some [\<lparr>Field_log = Some ''operation_name'', Equals_log = Some ''write''\<rparr>]\<rparr>)
     = [VMap Map.empty]
   \<and> ToLower lowerDottedI (''resource'' @ [CHR 0xC4, CHR 0xB0] @ ''d'') = ''resourceid''
   \<and> flattenMonitorActivityLogAlertCriteria lowerDottedI
     (Some \<lparr>AllOf_log = Some [\<lparr>Field_log = Some (''resource'' @ [CHR 0xC4, CHR 0xB0] @ ''d''),
                                Equals_log = Some ''id1''\<rparr>]\<rparr>)
     \<noteq> [VMap Map.empty]"
proof -
  have a: "list_ex (\<lambda>kf. ToLower lowerDottedI ''OperationName'' = ToLower lowerDottedI (snd kf))
        criteriaFields"
    by code_simp
  have b: "\<not> list_ex (\<lambda>kf. ToLower lowerDottedI ''operation_name'' = ToLower lowerDottedI (snd kf))
        criteriaFields"
    by code_simp
  have c: "ToLower lowerDottedI (''resource'' @ [CHR 0xC4, CHR 0xB0] @ ''d'') = ''resourceid''"
    by code_simp
  have d: "list_ex (\<lambda>kf. ToLower lowerDottedI (''resource'' @ [CHR 0xC4, CHR 0xB0] @ ''d'')
                        = ToLower lowerDottedI (snd kf)) criteriaFields"
    unfolding c by code_simp
  show ?thesis
    using a b c d C7_flatten_category [of lowerDottedI "''OperationName''" "''write''"]
      C7_flatten_category [of lowerDottedI "''operation_name''" "''write''"]
      C7_flatten_category [of lowerDottedI "''resource'' @ [CHR 0xC4, CHR 0xB0] @ ''d''" "''id1''"]
    by simp
qed

text \<open>
  C9: a condition whose Field lowers to \<open>caller\<close>, \<open>category\<close>, \<open>level\<close> or \<open>status\<close>
  is stored under the Field string as the response spells it; a condition whose Field
  lowers to the lowered form of any other field name of the criteria table is stored
  under the table's configuration key, and so is, in particular, every Field that
  differs from such a name in the case of its letters only.  All are said for a
  condition at the end of any list of conditions, whose map is
  \<open>flattenConditions u Map.empty cs\<close>, and whatever the Unicode branch of
  \<open>strings.ToLower\<close> returns.
\<close>

theorem C9_flatten_keys:
  "(ToLower u f = ''caller'' \<or> ToLower u f = ''category'' \<or> ToLower u f = ''level''
      \<or> ToLower u f = ''status''
      \<longrightarrow> flattenMonitorActivityLogAlertCriteria u
            (Some \<lparr>AllOf_log = Some (cs @ [\<lparr>Field_log = Some f, Equals_log = Some e\<rparr>])\<rparr>)
          = [VMap ((flattenConditions u Map.empty cs)(f \<mapsto> VString e))])
   \<and> ((k, api) \<in> set criteriaFields \<and> ToLower u f' = ToLower u api
        \<and> api \<noteq> ''caller'' \<and> api \<noteq> ''category'' \<and> api \<noteq> ''level'' \<and> api \<noteq> ''status''
      \<longrightarrow> flattenMonitorActivityLogAlertCriteria u
            (Some \<lparr>AllOf_log = Some (cs @ [\<lparr>Field_log = Some f', Equals_log = Some e\<rparr>])\<rparr>)
          = [VMap ((flattenConditions u Map.empty cs)(k \<mapsto> VString e))])
   \<and> ((k, api) \<in> set criteriaFields \<and> EqualFold f'' api
        \<and> api \<noteq> ''caller'' \<and> api \<noteq> ''category'' \<and> api \<noteq> ''level'' \<and> api \<noteq> ''status''
      \<longrightarrow> flattenMonitorActivityLogAlertCriteria u
            (Some \<lparr>AllOf_log = Some (cs @ [\<lparr>Field_log = Some f'', Equals_log = Some e\<rparr>])\<rparr>)
          = [VMap ((flattenConditions u Map.empty cs)(k \<mapsto> VString e))])"
proof -
  have spelled: "flattenMonitorActivityLogAlertCriteria u
            (Some \<lparr>AllOf_log = Some (cs @ [\<lparr>Field_log = Some f, Equals_log = Some e\<rparr>])\<rparr>)
          = [VMap ((flattenConditions u Map.empty cs)(f \<mapsto> VString e))]"
    if "ToLower u f = ''caller'' \<or> ToLower u f = ''category'' \<or> ToLower u f = ''level''
          \<or> ToLower u f = ''status''"
    unfolding flatten_snoc using that by (simp add: flattenCondition_as_spelled)
  have snake: "flattenMonitorActivityLogAlertCriteria u
            (Some \<lparr>AllOf_log = Some (cs @ [\<lparr>Field_log = Some g, Equals_log = Some e\<rparr>])\<rparr>)
          = [VMap ((flattenConditions u Map.empty cs)(k \<mapsto> VString e))]"
    if "(k, api) \<in> set criteriaFields" and "ToLower u g = ToLower u api"
      and "api \<noteq> ''caller''" and "api \<noteq> ''category''" and "api \<noteq> ''level''"
      and "api \<noteq> ''status''" for g
    unfolding flatten_snoc
    using ToLower_snake_case [OF that] by (simp add: flattenCondition_snake_case)
  have folded: "ToLower u f'' = ToLower u api"
    if "(k, api) \<in> set criteriaFields" and "EqualFold f'' api"
  proof -
    have "isASCII api"
      using that(1) isASCII_criteriaFields by (auto simp: list_all_iff)
    with that(2) show ?thesis
      by (rule EqualFold_ToLower)
  qed
  show ?thesis
    using spelled snake [of f'] snake [of f''] folded by blast
qed

theorem C9_flatten_keys_witness:
  "ToLower lowerDottedI ''Category'' = ''category''
   \<and> flattenMonitorActivityLogAlertCriteria lowerDottedI
       (Some \<lparr>AllOf_log = Some [\<lparr>Field_log = Some ''Category'', Equals_log = Some ''Administrative''\<rparr>]\<rparr>)
     = [VMap [''Category'' \<mapsto> VString ''Administrative'']]
   \<and> [''Category'' \<mapsto> VString ''Administrative''] ''category'' = None
   \<and> ToLower lowerDottedI (''resource'' @ [CHR 0xC4, CHR 0xB0] @ ''d'')
       = ToLower lowerDottedI ''resourceId''
   \<and> flattenMonitorActivityLogAlertCriteria lowerDottedI
       (Some \<lparr>AllOf_log = Some [\<lparr>Field_log = Some (''resource'' @ [CHR 0xC4, CHR 0xB0] @ ''d''),
                                  Equals_log = Some ''id1''\<rparr>]\<rparr>)
     = [VMap [''resource_id'' \<mapsto> VString ''id1'']]
   \<and> EqualFold ''OperationName'' ''operationName''
   \<and> flattenMonitorActivityLogAlertCriteria lowerDottedI
       (Some \<lparr>AllOf_log = Some [\<lparr>Field_log = Some ''OperationName'', Equals_log = Some ''write''\<rparr>]\<rparr>)
     = [VMap [''operation_name'' \<mapsto> VString ''write'']]"
proof -
  have a: "ToLower lowerDottedI ''Category'' = ''category''"
    by code_simp
  have b: "(''operation_name'', ''operationName'') \<in> set criteriaFields"
    "(''resource_id'', ''resourceId'') \<in> set criteriaFields"
    by (simp_all add: criteriaFields_def)
  have c: "EqualFold ''OperationName'' ''operationName''"
    by code_simp
  have d: "ToLower lowerDottedI (''resource'' @ [CHR 0xC4, CHR 0xB0] @ ''d'')
       = ToLower lowerDottedI ''resourceId''"
    by code_simp
  show ?thesis
    using a b c d
      C9_flatten_keys [of lowerDottedI "''Category''" "[]" "''Administrative''"
        "''resource_id''" "''resourceId''" "''resource'' @ [CHR 0xC4, CHR 0xB0] @ ''d''"
        "''OperationName''"]
      C9_flatten_keys [of lowerDottedI "''Category''" "[]" "''id1''"
        "''resource_id''" "''resourceId''" "''resource'' @ [CHR 0xC4, CHR 0xB0] @ ''d''"
        "''OperationName''"]
      C9_flatten_keys [of lowerDottedI "''Category''" "[]" "''write''"
        "''operation_name''" "''operationName''" "''OperationName''" "''OperationName''"]
    by simp
qed

subsection \<open>Claims on delete\<close>

text \<open>
  C8, as the code has it: when the ID parses and the API's Delete call returns an error,
  \<open>resourceMonitorActivityLogAlertDelete\<close> returns nil if the response is a not-found
  response, and otherwise the error wrapped with the alert name and the resource group.
  In both cases the resource data is returned as it came in: the function clears
  nothing.
\<close>

theorem C8_delete:
  assumes "parseAzureResourceID (dataId d) = Inr rid"
    and "clientDelete (ResourceGroup rid)
           (case Path rid ''activityLogAlerts'' of None \<Rightarrow> [] | Some n \<Rightarrow> n) = (resp, Some err)"
  shows "(wasNotFound resp \<longrightarrow>
            resourceMonitorActivityLogAlertDelete parseAzureResourceID clientDelete wasNotFound d
            = (d, None))
       \<and> (\<not> wasNotFound resp \<longrightarrow>
            resourceMonitorActivityLogAlertDelete parseAzureResourceID clientDelete wasNotFound d
            = (d, Some (DeletingError
                          (case Path rid ''activityLogAlerts'' of None \<Rightarrow> [] | Some n \<Rightarrow> n)
                          (ResourceGroup rid) err)))"
  using assms by (simp add: resourceMonitorActivityLogAlertDelete_def)

theorem C8_delete_witness:
  "resourceMonitorActivityLogAlertDelete parsesToAlert1 deleteAnswers404 status404
     \<lparr>dataId = ''/subscriptions/sub1/resourceGroups/rg1/providers/microsoft.insights/activityLogAlerts/alert1'',
      dataAttributes = map_of [(''name'', VString ''alert1'')]\<rparr>
   = (\<lparr>dataId = ''/subscriptions/sub1/resourceGroups/rg1/providers/microsoft.insights/activityLogAlerts/alert1'',
       dataAttributes = map_of [(''name'', VString ''alert1'')]\<rparr>, None)
   \<and> resourceMonitorActivityLogAlertDelete parsesToAlert1 deleteAnswers500 status404
     \<lparr>dataId = ''/subscriptions/sub1/resourceGroups/rg1/providers/microsoft.insights/activityLogAlerts/alert1'',
      dataAttributes = map_of [(''name'', VString ''alert1'')]\<rparr>
   = (\<lparr>dataId = ''/subscriptions/sub1/resourceGroups/rg1/providers/microsoft.insights/activityLogAlerts/alert1'',
       dataAttributes = map_of [(''name'', VString ''alert1'')]\<rparr>,
      Some (DeletingError ''alert1'' ''rg1'' (ApiError ''internal server error'')))"
proof -
  let ?d = "\<lparr>dataId = ''/subscriptions/sub1/resourceGroups/rg1/providers/microsoft.insights/activityLogAlerts/alert1'',
      dataAttributes = map_of [(''name'', VString ''alert1'')]\<rparr>"
  let ?rid = "\<lparr>ResourceGroup = ''rg1'', Path = map_of [(''activityLogAlerts'', ''alert1'')]\<rparr>"
  have p: "parsesToAlert1 (dataId ?d) = Inr ?rid"
    by (simp add: parsesToAlert1_def)
  have a: "deleteAnswers404 (ResourceGroup ?rid)
           (case Path ?rid ''activityLogAlerts'' of None \<Rightarrow> [] | Some n \<Rightarrow> n)
         = (404, Some (ApiError ''not found''))"
    by (simp add: deleteAnswers404_def)
  have b: "deleteAnswers500 (ResourceGroup ?rid)
           (case Path ?rid ''activityLogAlerts'' of None \<Rightarrow> [] | Some n \<Rightarrow> n)
         = (500, Some (ApiError ''internal server error''))"
    by (simp add: deleteAnswers500_def)
  show ?thesis
    using C8_delete [of parsesToAlert1 ?d ?rid deleteAnswers404 404 "ApiError ''not found''" status404]
      C8_delete [of parsesToAlert1 ?d ?rid deleteAnswers500 500 "ApiError ''internal server error''"
        status404]
      p a b
    by (simp add: status404_def)
qed

text \<open>
  Against a resource the API reports as not found, the call returns nil and the
  resource data still carries its ID and its attributes: nothing has been cleared.
\<close>

theorem C8_delete_counterexample:
  "resourceMonitorActivityLogAlertDelete parsesToAlert1 deleteAnswers404 status404
     \<lparr>dataId = ''/subscriptions/sub1/resourceGroups/rg1/providers/microsoft.insights/activityLogAlerts/alert1'',
      dataAttributes = map_of [(''name'', VString ''alert1'')]\<rparr>
   = (\<lparr>dataId = ''/subscriptions/sub1/resourceGroups/rg1/providers/microsoft.insights/activityLogAlerts/alert1'',
       dataAttributes = map_of [(''name'', VString ''alert1'')]\<rparr>, None)
   \<and> dataId (fst (resourceMonitorActivityLogAlertDelete parsesToAlert1 deleteAnswers404 status404
     \<lparr>dataId = ''/subscriptions/sub1/resourceGroups/rg1/providers/microsoft.insights/activityLogAlerts/alert1'',
      dataAttributes = map_of [(''name'', VString ''alert1'')]\<rparr>)) \<noteq> []"
  by (simp add: resourceMonitorActivityLogAlertDelete_def parsesToAlert1_def deleteAnswers404_def
      status404_def)

end
